theory Spec2Isabelle
  imports Main
begin

section \<open>The configuration window of autokey (qtui/configwindow.py)\<close>

text \<open>
  A shallow embedding of the logic of \<^verbatim>\<open>ConfigWindow\<close>: the enablement of the
  menu actions derived from the tree selection (\<^verbatim>\<open>update_actions\<close>), the handling of
  a close request (\<^verbatim>\<open>queryClose\<close>), cancelling a recording (\<^verbatim>\<open>cancel_record\<close>) and
  the worker thread that runs the selected script (\<^verbatim>\<open>on_run_script\<close>,
  \<^verbatim>\<open>_run_script\<close>). Qt widgets are reduced to the attributes the code reads and
  writes; collaborators that live outside the file are parameters or logs.
\<close>

subsection \<open>Data\<close>

text \<open>
  The items of the tree are instances of \<^verbatim>\<open>model.Folder\<close>, \<^verbatim>\<open>model.Phrase\<close> or
  \<^verbatim>\<open>model.Script\<close>; the number identifies the object. The discriminators are the
  \<^verbatim>\<open>isinstance\<close> tests of the source.
\<close>

datatype item = is_Folder: Folder nat | is_Phrase: Phrase nat | is_Script: Script nat

text \<open>The keys of \<^verbatim>\<open>cm.ConfigManager.SETTINGS\<close> and the values stored under them.\<close>

datatype setting_key = HPANE_POSITION | COLUMN_WIDTHS | OTHER_SETTING string

datatype setting_value = IntValue int | IntList "int list"

datatype error = IndexError

text \<open>
  The program counter of one thread running \<^verbatim>\<open>_run_script\<close>: started and not yet at
  line 289; holding the script read at line 289 and sleeping (line 290); returned from
  \<^verbatim>\<open>execute\<close> (line 291); or ended by the exception of \<^verbatim>\<open>[0]\<close> on an empty
  selection.
\<close>

datatype worker = Started | Sleeping item | Finished | Crashed error

text \<open>
  What the window reads from \<^verbatim>\<open>self.central_widget\<close>: the \<^verbatim>\<open>dirty\<close> attribute, the
  clipboard \<^verbatim>\<open>cutCopiedItems\<close>, the result of \<^verbatim>\<open>get_selected_item()\<close>, the result of
  \<^verbatim>\<open>splitter.sizes()\<close>, \<^verbatim>\<open>treeWidget.columnWidth\<close>, and whether the recorder has
  been started and not stopped.
\<close>

record CentralWidget =
  dirty :: bool
  cutCopiedItems :: "item list"
  selected_item :: "item list"
  splitter_sizes :: "int list"
  columnWidth :: "nat \<Rightarrow> int"
  recorder_running :: bool

text \<open>
  The window: the \<^verbatim>\<open>enabled\<close> property of each action that the file sets, the
  \<^verbatim>\<open>checked\<close> property of \<^verbatim>\<open>action_record_script\<close>, the visibility of the window,
  the central widget, the class-level dictionary \<^verbatim>\<open>cm.ConfigManager.SETTINGS\<close> with the
  list of the assignments made to it, the threads started by \<^verbatim>\<open>on_run_script\<close>, the
  scripts handed to \<^verbatim>\<open>app.service.scriptRunner.execute\<close>, the arguments of
  \<^verbatim>\<open>app.config_altered\<close> and whether \<^verbatim>\<open>app.shutdown\<close> was called.
\<close>

record ConfigWindow =
  action_new_top_folder_enabled :: bool
  action_new_sub_folder_enabled :: bool
  action_new_phrase_enabled :: bool
  action_new_script_enabled :: bool
  action_copy_item_enabled :: bool
  action_clone_item_enabled :: bool
  action_paste_item_enabled :: bool
  action_record_script_enabled :: bool
  action_record_script_checked :: bool
  action_run_script_enabled :: bool
  action_save_enabled :: bool
  action_undo_enabled :: bool
  action_redo_enabled :: bool
  visible :: bool
  central_widget :: CentralWidget
  SETTINGS :: "setting_key \<Rightarrow> setting_value option"
  settings_writes :: "(setting_key \<times> setting_value) list"
  workers :: "worker list"
  executed :: "item list"
  config_altered_calls :: "bool list"
  shutdown_called :: bool

subsection \<open>Action states\<close>

text \<open>\<^verbatim>\<open>set_dirty\<close> (lines 174-176).\<close>

definition set_dirty :: "ConfigWindow \<Rightarrow> ConfigWindow" where
  "set_dirty self =
     self\<lparr>central_widget := (central_widget self)\<lparr>dirty := True\<rparr>,
          action_save_enabled := True\<rparr>"

text \<open>\<^verbatim>\<open>is_dirty\<close> (lines 192-193).\<close>

definition is_dirty :: "ConfigWindow \<Rightarrow> bool" where
  "is_dirty self = dirty (central_widget self)"

text \<open>
  The loop of lines 198-202: \<^verbatim>\<open>can_copy\<close> starts as \<^verbatim>\<open>True\<close> and the first folder
  met sets it to \<^verbatim>\<open>False\<close> and leaves the loop.
\<close>

fun can_copy_loop :: "item list \<Rightarrow> bool" where
  "can_copy_loop [] = True"
| "can_copy_loop (item # items) = (if is_Folder item then False else can_copy_loop items)"

text \<open>
  \<^verbatim>\<open>update_actions\<close> (lines 195-219). The whole body is under \<^verbatim>\<open>if len(items) > 0\<close>;
  \<^verbatim>\<open>first\<close> is \<^verbatim>\<open>items[0]\<close>.
\<close>

definition update_actions :: "item list \<Rightarrow> bool \<Rightarrow> ConfigWindow \<Rightarrow> ConfigWindow" where
  "update_actions items changed self =
     (case items of
        [] \<Rightarrow> self
      | first # rest \<Rightarrow>
          let can_create = (is_Folder first \<and> length items = 1);
              can_copy = can_copy_loop items;
              self1 = self\<lparr>
                action_new_top_folder_enabled := True,
                action_new_sub_folder_enabled := can_create,
                action_new_phrase_enabled := can_create,
                action_new_script_enabled := can_create,
                action_copy_item_enabled := can_copy,
                action_clone_item_enabled := can_copy,
                action_paste_item_enabled :=
                  (can_create \<and> length (cutCopiedItems (central_widget self)) > 0),
                action_record_script_enabled := (is_Script first \<and> length items = 1),
                action_run_script_enabled := (is_Script first \<and> length items = 1)\<rparr>
          in if changed
             then self1\<lparr>action_save_enabled := False,
                        action_undo_enabled := False,
                        action_redo_enabled := False\<rparr>
             else self1)"

text \<open>\<^verbatim>\<open>set_undo_available\<close> and \<^verbatim>\<open>set_redo_available\<close> (lines 221-225).\<close>

definition set_undo_available :: "bool \<Rightarrow> ConfigWindow \<Rightarrow> ConfigWindow" where
  "set_undo_available state self = self\<lparr>action_undo_enabled := state\<rparr>"

definition set_redo_available :: "bool \<Rightarrow> ConfigWindow \<Rightarrow> ConfigWindow" where
  "set_redo_available state self = self\<lparr>action_redo_enabled := state\<rparr>"

text \<open>\<^verbatim>\<open>save_completed\<close> (lines 227-230).\<close>

definition save_completed :: "bool \<Rightarrow> ConfigWindow \<Rightarrow> ConfigWindow" where
  "save_completed persist_global self =
     self\<lparr>action_save_enabled := False,
          config_altered_calls := config_altered_calls self @ [persist_global]\<rparr>"

text \<open>
  \<^verbatim>\<open>cancel_record\<close> (lines 232-235): only when the record action is checked, it is
  unchecked and the recorder is stopped.
\<close>

definition cancel_record :: "ConfigWindow \<Rightarrow> ConfigWindow" where
  "cancel_record self =
     (if action_record_script_checked self
      then self\<lparr>action_record_script_checked := False,
                central_widget := (central_widget self)\<lparr>recorder_running := False\<rparr>\<rparr>
      else self)"

subsection \<open>Closing the window\<close>

text \<open>
  An assignment \<^verbatim>\<open>cm.ConfigManager.SETTINGS[key] = value\<close>; the assignment is also
  appended to the list of the writes.
\<close>

definition store_setting :: "setting_key \<Rightarrow> setting_value \<Rightarrow> ConfigWindow \<Rightarrow> ConfigWindow" where
  "store_setting key val self =
     self\<lparr>SETTINGS := (SETTINGS self)(key := Some val),
          settings_writes := settings_writes self @ [(key, val)]\<rparr>"

text \<open>\<^verbatim>\<open>self.hide()\<close>.\<close>

definition hide :: "ConfigWindow \<Rightarrow> ConfigWindow" where
  "hide self = self\<lparr>visible := False\<rparr>"

text \<open>
  \<^verbatim>\<open>queryClose\<close> (lines 239-251). \<^verbatim>\<open>promptToSave\<close> is a method of the central widget
  that is not part of the file: it is a parameter that returns its answer and the state
  it leaves. \<^verbatim>\<open>sizes()[0]\<close> raises \<^verbatim>\<open>IndexError\<close> on an empty list, before anything
  is written; \<^verbatim>\<open>range(3)\<close> is \<open>[0..<3]\<close>.
\<close>

definition queryClose ::
  "(ConfigWindow \<Rightarrow> bool \<times> ConfigWindow) \<Rightarrow> ConfigWindow \<Rightarrow> error + (bool \<times> ConfigWindow)" where
  "queryClose promptToSave self =
     (case splitter_sizes (central_widget self) of
        [] \<Rightarrow> Inl IndexError
      | size0 # other_sizes \<Rightarrow>
          let self1 = store_setting HPANE_POSITION (IntValue (size0 + 4)) self;
              self2 = store_setting COLUMN_WIDTHS
                        (IntList (map (columnWidth (central_widget self1)) [0..<3])) self1
          in if is_dirty self2
             then (case promptToSave self2 of
                     (answer, self3) \<Rightarrow>
                       if answer then Inr (False, self3) else Inr (True, hide self3))
             else Inr (True, hide self2))"

text \<open>\<^verbatim>\<open>on_close\<close> (lines 255-257): the result of \<^verbatim>\<open>queryClose\<close> is dropped.\<close>

definition on_close ::
  "(ConfigWindow \<Rightarrow> bool \<times> ConfigWindow) \<Rightarrow> ConfigWindow \<Rightarrow> error + ConfigWindow" where
  "on_close promptToSave self =
     (case queryClose promptToSave (cancel_record self) of
        Inl e \<Rightarrow> Inl e
      | Inr (closed, self1) \<Rightarrow> Inr self1)"

text \<open>\<^verbatim>\<open>on_quit\<close> (lines 259-261).\<close>

definition on_quit ::
  "(ConfigWindow \<Rightarrow> bool \<times> ConfigWindow) \<Rightarrow> ConfigWindow \<Rightarrow> error + ConfigWindow" where
  "on_quit promptToSave self =
     (case queryClose promptToSave self of
        Inl e \<Rightarrow> Inl e
      | Inr (closed, self1) \<Rightarrow>
          if closed then Inr (self1\<lparr>shutdown_called := True\<rparr>) else Inr self1)"

subsection \<open>Running the selected script\<close>

text \<open>
  \<^verbatim>\<open>on_run_script\<close> (lines 284-286) creates a thread with target \<^verbatim>\<open>_run_script\<close>
  and no argument, starts it and returns.
\<close>

definition on_run_script :: "ConfigWindow \<Rightarrow> ConfigWindow" where
  "on_run_script self = self\<lparr>workers := workers self @ [Started]\<rparr>"

text \<open>
  One step of a thread in \<^verbatim>\<open>_run_script\<close> (lines 288-291). A started thread reads
  \<^verbatim>\<open>get_selected_item()[0]\<close> into its local \<^verbatim>\<open>script\<close> and goes to sleep, or ends
  with \<^verbatim>\<open>IndexError\<close> when nothing is selected. A sleeping thread wakes up and hands
  its local \<^verbatim>\<open>script\<close> to \<^verbatim>\<open>scriptRunner.execute\<close>. Time is not measured: the end
  of the sleep is a step that happens at some later point.
\<close>

definition worker_step :: "worker \<Rightarrow> ConfigWindow \<Rightarrow> worker \<times> ConfigWindow" where
  "worker_step t self =
     (case t of
        Started \<Rightarrow>
          (case selected_item (central_widget self) of
             [] \<Rightarrow> (Crashed IndexError, self)
           | script # others \<Rightarrow> (Sleeping script, self))
      | Sleeping script \<Rightarrow> (Finished, self\<lparr>executed := executed self @ [script]\<rparr>)
      | Finished \<Rightarrow> (Finished, self)
      | Crashed e \<Rightarrow> (Crashed e, self))"

text \<open>The thread with index \<open>k\<close> makes its next step; an index of no thread does nothing.\<close>

definition run_script_step :: "nat \<Rightarrow> ConfigWindow \<Rightarrow> ConfigWindow" where
  "run_script_step k self =
     (if k < length (workers self)
      then (case worker_step (workers self ! k) self of
              (t, self1) \<Rightarrow> self1\<lparr>workers := (workers self1)[k := t]\<rparr>)
      else self)"

text \<open>
  The tree widget changes its selection and reports it to the window, which is how
  \<^verbatim>\<open>update_actions\<close> gets its arguments.
\<close>

definition select_items :: "item list \<Rightarrow> bool \<Rightarrow> ConfigWindow \<Rightarrow> ConfigWindow" where
  "select_items items changed self =
     update_actions items changed
       (self\<lparr>central_widget := (central_widget self)\<lparr>selected_item := items\<rparr>\<rparr>)"

text \<open>
  What can happen while a script thread exists: the event thread handles a click on
  the run action, a change of the selection, an edit, or a thread makes a step. Each
  runs to its end before the next starts.
\<close>

datatype event =
    RunScriptClicked
  | SelectionChanged "item list" bool
  | Edited
  | WorkerStep nat

fun handle :: "event \<Rightarrow> ConfigWindow \<Rightarrow> ConfigWindow" where
  "handle RunScriptClicked self = on_run_script self"
| "handle (SelectionChanged items changed) self = select_items items changed self"
| "handle Edited self = set_dirty self"
| "handle (WorkerStep k) self = run_script_step k self"

fun run :: "event list \<Rightarrow> ConfigWindow \<Rightarrow> ConfigWindow" where
  "run [] self = self"
| "run (e # es) self = run es (handle e self)"

text \<open>
  A concrete window on which the definitions are evaluated: nothing selected, no
  unsaved change, only the top-level folder action enabled.
\<close>

definition initial_window :: ConfigWindow where
  "initial_window =
     \<lparr>action_new_top_folder_enabled = True,
      action_new_sub_folder_enabled = False,
      action_new_phrase_enabled = False,
      action_new_script_enabled = False,
      action_copy_item_enabled = False,
      action_clone_item_enabled = False,
      action_paste_item_enabled = False,
      action_record_script_enabled = False,
      action_record_script_checked = False,
      action_run_script_enabled = False,
      action_save_enabled = False,
      action_undo_enabled = False,
      action_redo_enabled = False,
      visible = True,
      central_widget =
        \<lparr>dirty = False, cutCopiedItems = [], selected_item = [],
         splitter_sizes = [250, 550], columnWidth = (\<lambda>c. 150),
         recorder_running = False\<rparr>,
      SETTINGS = (\<lambda>k. None),
      settings_writes = [],
      workers = [],
      executed = [],
      config_altered_calls = [],
      shutdown_called = False\<rparr>"

text \<open>
  An answer of \<^verbatim>\<open>promptToSave\<close> that stops the close and leaves the window as it is,
  as when the question is cancelled.
\<close>

definition accepting_prompt :: "ConfigWindow \<Rightarrow> bool \<times> ConfigWindow" where
  "accepting_prompt self = (True, self)"

text \<open>
  An answer of \<^verbatim>\<open>promptToSave\<close> that lets the close go on and leaves the window as
  it is, as when the changes are given up.
\<close>

definition declining_prompt :: "ConfigWindow \<Rightarrow> bool \<times> ConfigWindow" where
  "declining_prompt self = (False, self)"

text \<open>
  The same window while a recording is active (the record action is checked) and after
  the events: a script is selected, the run action is clicked, and the thread has read
  the selection and sleeps. A script run is in progress.
\<close>

definition busy_window :: ConfigWindow where
  "busy_window =
     run [SelectionChanged [Script 1] False, RunScriptClicked, WorkerStep 0]
       (initial_window\<lparr>action_record_script_checked := True\<rparr>)"

section \<open>Properties\<close>

subsection \<open>Helper facts\<close>

lemma can_copy_loop_iff: "can_copy_loop items = (\<forall>i \<in> set items. \<not> is_Folder i)"
  by (induction items) auto

lemma nonempty_selection:
  assumes "items \<noteq> []"
  obtains first rest where "items = first # rest"
  using assms by (cases items) auto

subsection \<open>Enablement derived from the selection\<close>

text \<open>
  C6. For a non-empty selection, the copy action and the clone action are enabled
  exactly when no selected item is a folder, whatever else is selected.
\<close>

theorem update_actions_can_copy:
  assumes "items \<noteq> []"
  shows "action_copy_item_enabled (update_actions items changed self)
           = (\<forall>i \<in> set items. \<not> is_Folder i)
       \<and> action_clone_item_enabled (update_actions items changed self)
           = (\<forall>i \<in> set items. \<not> is_Folder i)"
proof -
  from assms obtain first rest where items: "items = first # rest"
    by (rule nonempty_selection)
  show ?thesis
    unfolding items update_actions_def Let_def
    by (simp add: can_copy_loop_iff del: can_copy_loop.simps)
qed

theorem update_actions_can_copy_witness:
  "[Phrase 1, Script 2] \<noteq> []
   \<and> action_copy_item_enabled (update_actions [Phrase 1, Script 2] False initial_window)
   \<and> action_clone_item_enabled (update_actions [Phrase 1, Script 2] False initial_window)
   \<and> [Phrase 1, Folder 3, Script 2] \<noteq> []
   \<and> \<not> action_copy_item_enabled
         (update_actions [Phrase 1, Folder 3, Script 2] True initial_window)
   \<and> \<not> action_clone_item_enabled
         (update_actions [Phrase 1, Folder 3, Script 2] True initial_window)"
  using update_actions_can_copy [of "[Phrase 1, Script 2]" False initial_window]
        update_actions_can_copy [of "[Phrase 1, Folder 3, Script 2]" True initial_window]
  by simp

text \<open>
  C7, as the code has it. For a non-empty selection, the actions new sub-folder, new
  phrase and new script are enabled exactly when the selection is one folder. An empty
  selection changes none of them.
\<close>

theorem update_actions_can_create:
  assumes "items \<noteq> []"
  shows "action_new_sub_folder_enabled (update_actions items changed self)
           = (\<exists>n. items = [Folder n])
       \<and> action_new_phrase_enabled (update_actions items changed self)
           = (\<exists>n. items = [Folder n])
       \<and> action_new_script_enabled (update_actions items changed self)
           = (\<exists>n. items = [Folder n])
       \<and> update_actions [] changed self = self"
proof -
  from assms obtain first rest where items: "items = first # rest"
    by (rule nonempty_selection)
  have "update_actions [] changed self = self"
    by (simp add: update_actions_def)
  then show ?thesis
    unfolding items update_actions_def Let_def
    by (cases first; simp)
qed

theorem update_actions_can_create_witness:
  "[Folder 7] \<noteq> []
   \<and> action_new_sub_folder_enabled (update_actions [Folder 7] False initial_window)
   \<and> action_new_phrase_enabled (update_actions [Folder 7] False initial_window)
   \<and> action_new_script_enabled (update_actions [Folder 7] False initial_window)
   \<and> [Folder 7, Folder 8] \<noteq> []
   \<and> \<not> action_new_sub_folder_enabled (update_actions [Folder 7, Folder 8] False initial_window)
   \<and> [Phrase 7] \<noteq> []
   \<and> \<not> action_new_sub_folder_enabled (update_actions [Phrase 7] False initial_window)"
  using update_actions_can_create [of "[Folder 7]" False initial_window]
        update_actions_can_create [of "[Folder 7, Folder 8]" False initial_window]
        update_actions_can_create [of "[Phrase 7]" False initial_window]
  by simp

text \<open>
  C7, as the claim has it, fails on an empty selection: a folder is selected, which
  enables new sub-folder, and then the selection becomes empty. The action is still
  enabled.
\<close>

theorem update_actions_can_create_counterexample:
  "action_new_sub_folder_enabled
     (run [SelectionChanged [Folder 1] False, SelectionChanged [] False] initial_window)"
  by (simp add: initial_window_def select_items_def update_actions_def Let_def)

text \<open>
  C8. For a non-empty selection, the paste action is enabled exactly when the selection
  is one folder and the clipboard holds at least one item.
\<close>

theorem update_actions_can_paste:
  assumes "items \<noteq> []"
  shows "action_paste_item_enabled (update_actions items changed self)
         = ((\<exists>n. items = [Folder n]) \<and> length (cutCopiedItems (central_widget self)) > 0)"
proof -
  from assms obtain first rest where items: "items = first # rest"
    by (rule nonempty_selection)
  show ?thesis
    unfolding items update_actions_def Let_def
    by (cases first; simp)
qed

theorem update_actions_can_paste_witness:
  "[Folder 7] \<noteq> []
   \<and> action_paste_item_enabled
       (update_actions [Folder 7] False
          (initial_window\<lparr>central_widget :=
             (central_widget initial_window)\<lparr>cutCopiedItems := [Phrase 2]\<rparr>\<rparr>))
   \<and> \<not> action_paste_item_enabled (update_actions [Folder 7] False initial_window)"
  using update_actions_can_paste [of "[Folder 7]" False
          "initial_window\<lparr>central_widget :=
             (central_widget initial_window)\<lparr>cutCopiedItems := [Phrase 2]\<rparr>\<rparr>"]
        update_actions_can_paste [of "[Folder 7]" False initial_window]
  by (simp add: initial_window_def)

text \<open>
  C1, as the code has it. When exactly one script is selected, the record action and
  the run action are enabled in every state of the window: \<^verbatim>\<open>update_actions\<close> reads
  neither the checked state of the record action nor the script threads.
\<close>

theorem update_actions_single_script:
  "action_record_script_enabled (update_actions [Script n] changed self)
   \<and> action_run_script_enabled (update_actions [Script n] changed self)"
  by (simp add: update_actions_def Let_def)

text \<open>
  C1, as the claim has it, fails while a recording is active and a script thread is
  between its start and the call of the interpreter: selecting one script enables both
  actions.
\<close>

theorem update_actions_single_script_counterexample:
  "action_record_script_checked busy_window
   \<and> workers busy_window = [Sleeping (Script 1)]
   \<and> action_record_script_enabled (update_actions [Script 1] False busy_window)
   \<and> action_run_script_enabled (update_actions [Script 1] False busy_window)"
  by (simp add: busy_window_def initial_window_def select_items_def update_actions_def
      Let_def on_run_script_def run_script_step_def worker_step_def)

text \<open>
  C3, as the code has it. A selection change with \<^verbatim>\<open>changed\<close> set and a non-empty
  selection disables save, undo and redo, whatever they were before. With an empty
  selection the window is left as it was.
\<close>

theorem update_actions_changed:
  assumes "items \<noteq> []"
  shows "\<not> action_save_enabled (update_actions items True self)
       \<and> \<not> action_undo_enabled (update_actions items True self)
       \<and> \<not> action_redo_enabled (update_actions items True self)
       \<and> update_actions [] True self = self"
proof -
  from assms obtain first rest where items: "items = first # rest"
    by (rule nonempty_selection)
  have "update_actions [] True self = self"
    by (simp add: update_actions_def)
  then show ?thesis
    unfolding items update_actions_def Let_def by simp
qed

theorem update_actions_changed_witness:
  "[Phrase 4] \<noteq> []
   \<and> action_save_enabled (set_dirty initial_window)
   \<and> \<not> action_save_enabled (update_actions [Phrase 4] True (set_dirty initial_window))
   \<and> \<not> action_undo_enabled (update_actions [Phrase 4] True (set_dirty initial_window))
   \<and> \<not> action_redo_enabled (update_actions [Phrase 4] True (set_dirty initial_window))"
  using update_actions_changed [of "[Phrase 4]" "set_dirty initial_window"]
  by (simp add: set_dirty_def)

text \<open>
  C3, as the claim has it, fails on an empty selection: after an edit the save action
  is enabled, and a selection change with \<^verbatim>\<open>changed\<close> set and nothing selected leaves
  it enabled.
\<close>

theorem update_actions_changed_counterexample:
  "action_save_enabled (run [Edited, SelectionChanged [] True] initial_window)"
  by (simp add: initial_window_def select_items_def update_actions_def set_dirty_def)

text \<open>
  C4, as the code has it. An empty selection changes nothing: every action, the
  top-level new folder action among them, keeps the enablement it had.
\<close>

theorem update_actions_empty_selection:
  "update_actions [] changed self = self"
  by (simp add: update_actions_def)

text \<open>
  C4, as the claim has it, fails when a script was selected before: copy, clone, record
  and run were enabled by that selection and stay enabled when the selection becomes
  empty.
\<close>

theorem update_actions_empty_selection_counterexample:
  "action_copy_item_enabled
     (run [SelectionChanged [Script 1] False, SelectionChanged [] False] initial_window)
   \<and> action_clone_item_enabled
     (run [SelectionChanged [Script 1] False, SelectionChanged [] False] initial_window)
   \<and> action_record_script_enabled
     (run [SelectionChanged [Script 1] False, SelectionChanged [] False] initial_window)
   \<and> action_run_script_enabled
     (run [SelectionChanged [Script 1] False, SelectionChanged [] False] initial_window)"
  by (simp add: initial_window_def select_items_def update_actions_def Let_def)

subsection \<open>Cancelling a recording\<close>

text \<open>
  C9. After \<^verbatim>\<open>cancel_record\<close> the record action is not checked, from every state; a
  second call right after the first changes nothing, and the action is still not
  checked. The function has no failing branch.
\<close>

theorem cancel_record_idempotent:
  "\<not> action_record_script_checked (cancel_record self)
   \<and> \<not> action_record_script_checked (cancel_record (cancel_record self))
   \<and> cancel_record (cancel_record self) = cancel_record self"
  by (simp add: cancel_record_def)

subsection \<open>Closing the window\<close>

lemma upt_3: "[0..<3] = [0, 1, 2]"
  by (simp add: numeral_3_eq_3 upt_rec)

text \<open>
  C5. With a splitter that has a pane, \<^verbatim>\<open>queryClose\<close> on a dirty window whose prompt
  answers true returns false. On a window that is not dirty it returns true, the window
  is hidden, and exactly two assignments have been made to the settings: the pane
  position and then the three column widths.
\<close>

theorem queryClose_result:
  assumes sizes: "splitter_sizes (central_widget self) = size0 # other_sizes"
  shows "(is_dirty self \<and> (\<forall>v. fst (promptToSave v))
            \<longrightarrow> (\<exists>self'. queryClose promptToSave self = Inr (False, self')))
       \<and> (\<not> is_dirty self
            \<longrightarrow> (\<exists>self'. queryClose promptToSave self = Inr (True, self')
                    \<and> \<not> visible self'
                    \<and> settings_writes self' = settings_writes self @
                        [(HPANE_POSITION, IntValue (size0 + 4)),
                         (COLUMN_WIDTHS, IntList [columnWidth (central_widget self) 0,
                                                  columnWidth (central_widget self) 1,
                                                  columnWidth (central_widget self) 2])]))"
proof (intro conjI impI)
  assume "is_dirty self \<and> (\<forall>v. fst (promptToSave v))"
  then show "\<exists>self'. queryClose promptToSave self = Inr (False, self')"
    using sizes
    by (simp add: queryClose_def Let_def is_dirty_def store_setting_def case_prod_beta)
next
  assume "\<not> is_dirty self"
  then show "\<exists>self'. queryClose promptToSave self = Inr (True, self')
                    \<and> \<not> visible self'
                    \<and> settings_writes self' = settings_writes self @
                        [(HPANE_POSITION, IntValue (size0 + 4)),
                         (COLUMN_WIDTHS, IntList [columnWidth (central_widget self) 0,
                                                  columnWidth (central_widget self) 1,
                                                  columnWidth (central_widget self) 2])]"
    using sizes
    by (simp add: queryClose_def Let_def is_dirty_def store_setting_def hide_def upt_3)
qed

theorem queryClose_result_witness:
  "(\<exists>self'. queryClose accepting_prompt (set_dirty initial_window) = Inr (False, self'))
   \<and> (\<exists>self'. queryClose accepting_prompt initial_window = Inr (True, self')
         \<and> \<not> visible self'
         \<and> settings_writes self'
             = [(HPANE_POSITION, IntValue 254), (COLUMN_WIDTHS, IntList [150, 150, 150])])"
proof -
  have s1: "splitter_sizes (central_widget (set_dirty initial_window)) = 250 # [550]"
    by (simp add: set_dirty_def initial_window_def)
  have d1: "is_dirty (set_dirty initial_window) \<and> (\<forall>v. fst (accepting_prompt v))"
    by (simp add: set_dirty_def is_dirty_def accepting_prompt_def)
  have s2: "splitter_sizes (central_widget initial_window) = 250 # [550]"
    by (simp add: initial_window_def)
  have d2: "\<not> is_dirty initial_window"
    by (simp add: is_dirty_def initial_window_def)
  from queryClose_result [OF s1, of accepting_prompt] d1
  have dirty_case: "\<exists>self'. queryClose accepting_prompt (set_dirty initial_window)
                            = Inr (False, self')"
    by blast
  from queryClose_result [OF s2, of accepting_prompt] d2
  have "\<exists>self'. queryClose accepting_prompt initial_window = Inr (True, self')
         \<and> \<not> visible self'
         \<and> settings_writes self'
             = [(HPANE_POSITION, IntValue 254), (COLUMN_WIDTHS, IntList [150, 150, 150])]"
    by (auto simp add: initial_window_def)
  with dirty_case show ?thesis by simp
qed

lemma hide_SETTINGS: "SETTINGS (hide self) = SETTINGS self"
  by (simp add: hide_def)

text \<open>
  C10. With a splitter that has a pane, every call of \<^verbatim>\<open>queryClose\<close> first makes
  the two assignments of the pane position and the column widths: \<open>v\<close> is the window
  after exactly these two assignments and nothing else. The dirty test and, on a dirty
  window, \<^verbatim>\<open>promptToSave\<close> run on \<open>v\<close>, and the result of the call is built from
  \<open>v\<close> in each of its three branches. The prompt not touching the settings, both
  values are in the settings of the window that is left, also when the close is given
  up with the result false.
\<close>

theorem queryClose_stores_layout_first:
  assumes sizes: "splitter_sizes (central_widget self) = size0 # other_sizes"
      and keeps: "\<And>v. SETTINGS (snd (promptToSave v)) = SETTINGS v"
  shows "\<exists>v. v = self\<lparr>SETTINGS := (SETTINGS self)
                       (HPANE_POSITION := Some (IntValue (size0 + 4)),
                        COLUMN_WIDTHS :=
                          Some (IntList [columnWidth (central_widget self) 0,
                                         columnWidth (central_widget self) 1,
                                         columnWidth (central_widget self) 2])),
                     settings_writes := settings_writes self @
                       [(HPANE_POSITION, IntValue (size0 + 4)),
                        (COLUMN_WIDTHS, IntList [columnWidth (central_widget self) 0,
                                                 columnWidth (central_widget self) 1,
                                                 columnWidth (central_widget self) 2])]\<rparr>
           \<and> SETTINGS v HPANE_POSITION = Some (IntValue (size0 + 4))
           \<and> SETTINGS v COLUMN_WIDTHS
               = Some (IntList [columnWidth (central_widget self) 0,
                                columnWidth (central_widget self) 1,
                                columnWidth (central_widget self) 2])
           \<and> settings_writes v = settings_writes self @
               [(HPANE_POSITION, IntValue (size0 + 4)),
                (COLUMN_WIDTHS, IntList [columnWidth (central_widget self) 0,
                                         columnWidth (central_widget self) 1,
                                         columnWidth (central_widget self) 2])]
           \<and> queryClose promptToSave self
               = (if is_dirty self
                  then (if fst (promptToSave v)
                        then Inr (False, snd (promptToSave v))
                        else Inr (True, hide (snd (promptToSave v))))
                  else Inr (True, hide v))
           \<and> (\<exists>closed left. queryClose promptToSave self = Inr (closed, left)
                 \<and> closed = (\<not> (is_dirty self \<and> fst (promptToSave v)))
                 \<and> SETTINGS left HPANE_POSITION = Some (IntValue (size0 + 4))
                 \<and> SETTINGS left COLUMN_WIDTHS
                     = Some (IntList [columnWidth (central_widget self) 0,
                                      columnWidth (central_widget self) 1,
                                      columnWidth (central_widget self) 2]))"
proof -
  let ?pos = "IntValue (size0 + 4)"
  let ?cols = "IntList [columnWidth (central_widget self) 0,
                        columnWidth (central_widget self) 1,
                        columnWidth (central_widget self) 2]"
  let ?v = "store_setting COLUMN_WIDTHS ?cols (store_setting HPANE_POSITION ?pos self)"
  have v: "?v = self\<lparr>SETTINGS := (SETTINGS self)
                       (HPANE_POSITION := Some ?pos, COLUMN_WIDTHS := Some ?cols),
                     settings_writes := settings_writes self @
                       [(HPANE_POSITION, ?pos), (COLUMN_WIDTHS, ?cols)]\<rparr>"
    by (simp add: store_setting_def)
  have a: "SETTINGS ?v HPANE_POSITION = Some ?pos"
    by (simp add: store_setting_def)
  have b: "SETTINGS ?v COLUMN_WIDTHS = Some ?cols"
    by (simp add: store_setting_def)
  have c: "settings_writes ?v = settings_writes self @
             [(HPANE_POSITION, ?pos), (COLUMN_WIDTHS, ?cols)]"
    by (simp add: store_setting_def)
  have q: "queryClose promptToSave self
             = (if is_dirty self
                then (if fst (promptToSave ?v)
                      then Inr (False, snd (promptToSave ?v))
                      else Inr (True, hide (snd (promptToSave ?v))))
                else Inr (True, hide ?v))"
    using sizes
    by (simp add: queryClose_def Let_def is_dirty_def store_setting_def upt_3 case_prod_beta)
  have kept: "SETTINGS (snd (promptToSave ?v)) = SETTINGS ?v"
    by (rule keeps)
  have r: "\<exists>closed left. queryClose promptToSave self = Inr (closed, left)
                 \<and> closed = (\<not> (is_dirty self \<and> fst (promptToSave ?v)))
                 \<and> SETTINGS left HPANE_POSITION = Some ?pos
                 \<and> SETTINGS left COLUMN_WIDTHS = Some ?cols"
  proof (cases "is_dirty self")
    case False
    with q have e: "queryClose promptToSave self = Inr (True, hide ?v)" by simp
    from a b have "SETTINGS (hide ?v) HPANE_POSITION = Some ?pos"
                  "SETTINGS (hide ?v) COLUMN_WIDTHS = Some ?cols"
      by (simp_all only: hide_SETTINGS)
    with e False show ?thesis by blast
  next
    case True
    note dirty = this
    from a b kept have s: "SETTINGS (snd (promptToSave ?v)) HPANE_POSITION = Some ?pos"
                          "SETTINGS (snd (promptToSave ?v)) COLUMN_WIDTHS = Some ?cols"
      by simp_all
    show ?thesis
    proof (cases "fst (promptToSave ?v)")
      case True
      with dirty q have "queryClose promptToSave self = Inr (False, snd (promptToSave ?v))"
        by simp
      with dirty True s show ?thesis by blast
    next
      case False
      with dirty q
      have e: "queryClose promptToSave self = Inr (True, hide (snd (promptToSave ?v)))"
        by simp
      from s have "SETTINGS (hide (snd (promptToSave ?v))) HPANE_POSITION = Some ?pos"
                  "SETTINGS (hide (snd (promptToSave ?v))) COLUMN_WIDTHS = Some ?cols"
        by (simp_all only: hide_SETTINGS)
      with e False show ?thesis by blast
    qed
  qed
  show ?thesis
    apply (rule exI [of _ ?v])
    apply (intro conjI)
         apply (rule v)
        apply (rule a)
       apply (rule b)
      apply (rule c)
     apply (rule q)
    apply (rule r)
    done
qed

theorem queryClose_stores_layout_first_witness:
  "(\<exists>left. queryClose accepting_prompt (set_dirty initial_window) = Inr (False, left)
      \<and> SETTINGS left HPANE_POSITION = Some (IntValue 254)
      \<and> SETTINGS left COLUMN_WIDTHS = Some (IntList [150, 150, 150]))
   \<and> (\<exists>left. queryClose declining_prompt (set_dirty initial_window) = Inr (True, left)
      \<and> SETTINGS left HPANE_POSITION = Some (IntValue 254)
      \<and> SETTINGS left COLUMN_WIDTHS = Some (IntList [150, 150, 150]))
   \<and> (\<exists>left. queryClose accepting_prompt initial_window = Inr (True, left)
      \<and> SETTINGS left HPANE_POSITION = Some (IntValue 254)
      \<and> SETTINGS left COLUMN_WIDTHS = Some (IntList [150, 150, 150]))"
proof -
  have s1: "splitter_sizes (central_widget (set_dirty initial_window)) = 250 # [550]"
    by (simp add: set_dirty_def initial_window_def)
  have s2: "splitter_sizes (central_widget initial_window) = 250 # [550]"
    by (simp add: initial_window_def)
  have ka: "\<And>v. SETTINGS (snd (accepting_prompt v)) = SETTINGS v"
    by (simp add: accepting_prompt_def)
  have kd: "\<And>v. SETTINGS (snd (declining_prompt v)) = SETTINGS v"
    by (simp add: declining_prompt_def)
  have d: "is_dirty (set_dirty initial_window)" "\<not> is_dirty initial_window"
          "\<And>v. fst (accepting_prompt v)" "\<And>v. \<not> fst (declining_prompt v)"
    by (simp_all add: set_dirty_def is_dirty_def initial_window_def accepting_prompt_def
        declining_prompt_def)
  have cw: "columnWidth (central_widget (set_dirty initial_window)) = (\<lambda>c. 150)"
           "columnWidth (central_widget initial_window) = (\<lambda>c. 150)"
    by (simp_all add: set_dirty_def initial_window_def)
  from queryClose_stores_layout_first [OF s1 ka] d cw
  have aborted: "\<exists>left. queryClose accepting_prompt (set_dirty initial_window) = Inr (False, left)
      \<and> SETTINGS left HPANE_POSITION = Some (IntValue 254)
      \<and> SETTINGS left COLUMN_WIDTHS = Some (IntList [150, 150, 150])"
    by auto
  from queryClose_stores_layout_first [OF s1 kd] d cw
  have declined: "\<exists>left. queryClose declining_prompt (set_dirty initial_window) = Inr (True, left)
      \<and> SETTINGS left HPANE_POSITION = Some (IntValue 254)
      \<and> SETTINGS left COLUMN_WIDTHS = Some (IntList [150, 150, 150])"
    by auto
  from queryClose_stores_layout_first [OF s2 ka] d cw
  have clean: "\<exists>left. queryClose accepting_prompt initial_window = Inr (True, left)
      \<and> SETTINGS left HPANE_POSITION = Some (IntValue 254)
      \<and> SETTINGS left COLUMN_WIDTHS = Some (IntList [150, 150, 150])"
    by auto
  from aborted declined clean show ?thesis by blast
qed

subsection \<open>Running the selected script\<close>

lemma update_actions_workers: "workers (update_actions items changed self) = workers self"
  by (cases items) (simp_all add: update_actions_def Let_def)

lemma worker_step_workers:
  "worker_step t self = (t', self') \<Longrightarrow> workers self' = workers self"
  by (auto simp add: worker_step_def split: worker.splits list.splits)

lemma handle_keeps_worker:
  assumes "k < length (workers self)" and "e \<noteq> WorkerStep k"
  shows "k < length (workers (handle e self))
       \<and> workers (handle e self) ! k = workers self ! k"
proof (cases e)
  case RunScriptClicked
  with assms show ?thesis by (simp add: on_run_script_def nth_append)
next
  case (SelectionChanged items changed)
  with assms show ?thesis by (simp add: select_items_def update_actions_workers)
next
  case Edited
  with assms show ?thesis by (simp add: set_dirty_def)
next
  case (WorkerStep j)
  with assms have "j \<noteq> k" by simp
  with assms WorkerStep show ?thesis
    by (auto simp add: run_script_step_def split: prod.splits dest: worker_step_workers)
qed

lemma run_keeps_worker:
  assumes "k < length (workers self)" and "WorkerStep k \<notin> set es"
  shows "k < length (workers (run es self)) \<and> workers (run es self) ! k = workers self ! k"
  using assms
proof (induction es arbitrary: self)
  case Nil
  then show ?case by simp
next
  case (Cons e es)
  from Cons.prems have e: "e \<noteq> WorkerStep k" and es: "WorkerStep k \<notin> set es" by auto
  from handle_keeps_worker [OF Cons.prems(1) e]
  have h: "k < length (workers (handle e self))"
          "workers (handle e self) ! k = workers self ! k"
    by simp_all
  from Cons.IH [OF h(1) es] h(2) show ?case by simp
qed

lemma run_append: "run (es @ fs) self = run fs (run es self)"
  by (induction es arbitrary: self) simp_all

lemma step_Started:
  assumes "k < length (workers self)" "workers self ! k = Started"
          "selected_item (central_widget self) = script # others"
  shows "k < length (workers (run_script_step k self))
       \<and> workers (run_script_step k self) ! k = Sleeping script"
  using assms by (simp add: run_script_step_def worker_step_def)

lemma step_Sleeping:
  assumes "k < length (workers self)" "workers self ! k = Sleeping script"
  shows "executed (run_script_step k self) = executed self @ [script]"
  using assms by (simp add: run_script_step_def worker_step_def)

text \<open>
  C2, as the code has it. The thread reads the selection as its first step, before it
  sleeps. When that step finds \<open>script\<close> first in the selection, then whatever the
  event thread and the other threads do before the thread wakes up (selection changes,
  edits, further clicks on run), the thread hands \<open>script\<close> to the interpreter.
\<close>

theorem run_script_executes_captured:
  assumes "k < length (workers self)"
      and "workers self ! k = Started"
      and "selected_item (central_widget self) = script # others"
      and "WorkerStep k \<notin> set es"
  shows "executed (run (WorkerStep k # es @ [WorkerStep k]) self)
         = executed (run (WorkerStep k # es) self) @ [script]"
proof -
  let ?s1 = "run_script_step k self"
  from step_Started [OF assms(1-3)]
  have s1: "k < length (workers ?s1)" "workers ?s1 ! k = Sleeping script" by simp_all
  from run_keeps_worker [OF s1(1) assms(4)] s1(2)
  have s2: "k < length (workers (run es ?s1))" "workers (run es ?s1) ! k = Sleeping script"
    by simp_all
  from step_Sleeping [OF s2] show ?thesis by (simp add: run_append)
qed

theorem run_script_executes_captured_witness:
  "executed (run [SelectionChanged [Script 1] False, RunScriptClicked, WorkerStep 0,
                  SelectionChanged [Script 2] True, Edited, WorkerStep 0] initial_window)
   = [Script 1]"
proof -
  let ?w = "run [SelectionChanged [Script 1] False, RunScriptClicked] initial_window"
  have a: "0 < length (workers ?w)" "workers ?w ! 0 = Started"
          "selected_item (central_widget ?w) = Script 1 # []"
    by (simp_all add: initial_window_def select_items_def update_actions_def Let_def
        on_run_script_def)
  have b: "WorkerStep 0 \<notin> set [SelectionChanged [Script 2] True, Edited]" by simp
  have c: "executed (run (WorkerStep 0 # [SelectionChanged [Script 2] True, Edited]) ?w) = []"
    by (simp add: initial_window_def select_items_def update_actions_def Let_def
        on_run_script_def run_script_step_def worker_step_def set_dirty_def)
  from run_script_executes_captured [OF a b] c show ?thesis by simp
qed

text \<open>
  C2, as the claim has it, fails when the selection changes after the click on run and
  before the thread's first step: script 1 is selected when run is clicked, script 2 is
  selected before the thread reads the selection, and script 2 is executed.
\<close>

theorem run_script_executes_captured_counterexample:
  "executed (run [SelectionChanged [Script 1] False, RunScriptClicked,
                  SelectionChanged [Script 2] False, WorkerStep 0, WorkerStep 0]
               initial_window)
   = [Script 2]"
  by (simp add: initial_window_def select_items_def update_actions_def Let_def
      on_run_script_def run_script_step_def worker_step_def)

end
